theory Spec2Isabelle
  imports Main
begin

section \<open>check\_prs\_contains\_and\_comment.py: a shallow embedding\<close>

text \<open>
  The script is a linear command-line runner: it resolves a GitHub token, fetches a
  repository, walks its pull requests, asks the compare API whether the target branch
  already holds each PR's head commit, and comments on the PRs for which it does.

  Python strings are \<open>string\<close>, Python ints are \<open>int\<close>, \<open>Optional[str]\<close> is
  \<open>string option\<close>. \<open>os.environ\<close> is a map from names to values. The hosting API is
  outside the script: it is a parameter of the model (a record of operations over an
  arbitrary world state \<open>'w\<close>), and every exception it raises is a value: \<open>Inl msg\<close>
  for a request inside a \<open>try\<close>, where \<open>msg\<close> is the text that \<open>str(error)\<close> gives,
  and \<open>Raises\<close> for the listing of the pull requests, which no \<open>try\<close> encloses.
\<close>

subsection \<open>Credential lookup\<close>

type_synonym environ = "string \<rightharpoonup> string"

text \<open>The list \<open>candidate_env_vars\<close> of \<open>read_token_from_environment\<close>.\<close>

definition candidate_env_vars :: "string list" where
  "candidate_env_vars = [''GITHUB_TOKEN'', ''GH_TOKEN'', ''GITHUB_PAT'', ''TOKEN'']"

text \<open>
  The \<open>for env_var in candidate_env_vars\<close> loop. \<open>os.environ.get\<close> gives \<open>None\<close> for an
  unset name; \<open>if token:\<close> is false for \<open>None\<close> and for the empty string.
\<close>

fun probe_env_vars :: "environ \<Rightarrow> string list \<Rightarrow> string option" where
  "probe_env_vars environ [] = None"
| "probe_env_vars environ (env_var # rest) =
     (case environ env_var of
        None \<Rightarrow> probe_env_vars environ rest
      | Some token \<Rightarrow> if token \<noteq> [] then Some token else probe_env_vars environ rest)"

definition read_token_from_environment :: "environ \<Rightarrow> string option" where
  "read_token_from_environment environ = probe_env_vars environ candidate_env_vars"

text \<open>
  \<open>get_github_client\<close>: \<open>explicit_token or read_token_from_environment()\<close> takes the
  explicit token when it is truthy (neither \<open>None\<close> nor empty) and the environment's
  otherwise; \<open>not token\<close> then prints the error and calls \<open>sys.exit(2)\<close>. The client
  \<open>Github(login_or_token=token)\<close> is represented by the token it is built with; building
  it performs no request. The failing branch returns the line written to the diagnostic
  stream and the exit status.
\<close>

definition no_token_message :: string where
  "no_token_message =
     ''ERROR: No GitHub token provided. Set GITHUB_TOKEN (or GH_TOKEN) or pass --token.''"

definition py_or :: "string option \<Rightarrow> string option \<Rightarrow> string option" where
  "py_or a b = (case a of None \<Rightarrow> b | Some t \<Rightarrow> if t \<noteq> [] then Some t else b)"

definition get_github_client :: "string option \<Rightarrow> environ \<Rightarrow> (string \<times> int) + string" where
  "get_github_client explicit_token environ =
     (case py_or explicit_token (read_token_from_environment environ) of
        None \<Rightarrow> Inl (no_token_message, 2)
      | Some token \<Rightarrow> if token = [] then Inl (no_token_message, 2) else Inr token)"

subsection \<open>Text formatting\<close>

text \<open>
  \<open>str\<close> of a Python int, as the f-strings use it for \<open>pr.number\<close> and the two counters:
  decimal digits, most significant first, with a leading minus sign for a negative value.
\<close>

definition digit_char :: "nat \<Rightarrow> char" where
  "digit_char d = ''0123456789'' ! d"

function str_nat :: "nat \<Rightarrow> string" where
  "str_nat n = (if n < 10 then [digit_char n] else str_nat (n div 10) @ [digit_char (n mod 10)])"
  by pat_completeness auto
termination
  by (relation "measure (\<lambda>n. n)") auto

declare str_nat.simps [simp del]

definition str_int :: "int \<Rightarrow> string" where
  "str_int i = (if i < 0 then CHR ''-'' # str_nat (nat (- i)) else str_nat (nat i))"

text \<open>\<open>str\<close> of a Python bool, as \<open>{is_contained}\<close> formats it.\<close>

definition str_bool :: "bool \<Rightarrow> string" where
  "str_bool b = (if b then ''True'' else ''False'')"

text \<open>
  \<open>repr\<close> of a Python str, as \<open>{pr.title!r}\<close> formats the title. A \<open>char\<close> stands for
  a code point below 256. The quote is the apostrophe, unless the text has an apostrophe
  and no double quote; the quote and the backslash are escaped with a backslash, tab,
  newline and carriage return are written \<open>\\t\<close>, \<open>\\n\<close>, \<open>\\r\<close>, and every other code
  point that is not printable is written \<open>\\xhh\<close> in lower-case hexadecimal. Below 256
  the printable code points are 32 to 126 and 161 to 255 without 173.
\<close>

definition squote :: char where "squote = CHR 0x27"
definition dquote :: char where "dquote = CHR 0x22"
definition backslash :: char where "backslash = CHR 0x5C"

definition hexdigit :: "nat \<Rightarrow> char" where
  "hexdigit d = ''0123456789abcdef'' ! d"

definition is_printable :: "char \<Rightarrow> bool" where
  "is_printable ch = (let n = (of_char ch :: nat) in (32 \<le> n \<and> n < 127) \<or> (161 \<le> n \<and> n \<noteq> 173))"

definition repr_char :: "char \<Rightarrow> char \<Rightarrow> string" where
  "repr_char quote ch =
     (if ch = quote \<or> ch = backslash then [backslash, ch]
      else if ch = CHR 0x09 then [backslash, CHR ''t'']
      else if ch = CHR 0x0A then [backslash, CHR ''n'']
      else if ch = CHR 0x0D then [backslash, CHR ''r'']
      else if is_printable ch then [ch]
      else [backslash, CHR ''x'', hexdigit (of_char ch div 16), hexdigit (of_char ch mod 16)])"

definition py_repr :: "string \<Rightarrow> string" where
  "py_repr s =
     (let quote = (if squote \<in> set s \<and> dquote \<notin> set s then dquote else squote)
      in quote # concat (map (repr_char quote) s) @ [quote])"

subsection \<open>Pull requests, the hosting API and the process state\<close>

record pull_request =
  number :: int
  title :: string
  base_ref :: string
  head_ref :: string
  head_sha :: string

text \<open>
  The parsed command line: \<open>args.repo\<close>, \<open>args.branch\<close>, \<open>args.status\<close>, \<open>args.state\<close>
  and \<open>args.token\<close> (\<open>None\<close> when \<open>--token\<close> is not given).
\<close>

record args =
  args_repo :: string
  args_branch :: string
  args_status :: string
  args_state :: string
  args_token :: "string option"

text \<open>
  The listing \<open>repo.get_pulls(state=...)\<close> is lazy: \<open>for pr in pulls\<close> asks it for
  the next pull request at the start of every iteration, and the listing fetches its pages
  from the host as it goes, between the loop's own requests. A value of \<open>'w listing\<close> is
  what one such question gives: the listing is exhausted (\<open>StopIteration\<close>), or the
  fetch raises an exception (\<open>Raises\<close>), or it yields a pull request (\<open>Yields\<close>) together
  with the listing's answer to the next question, which depends on the world in which
  that question is asked. Each answer carries the world it leaves. The listing is a finite
  sequence, as the values of a datatype are: every way through it ends after finitely
  many pull requests. The loop is outside every \<open>try\<close>, so the exception of
  \<open>Raises\<close> leaves \<open>main\<close>: its text here is the traceback that the interpreter writes
  to the diagnostic stream before it exits with status 1.
\<close>

datatype 'w listing =
    StopIteration 'w
  | Raises string 'w
  | Yields pull_request 'w "'w \<Rightarrow> 'w listing"

text \<open>
  The four requests the script makes. Each takes the world (the remote host, the network)
  and returns the changed world with the answer; \<open>Inl msg\<close> is a raised exception.
  \<open>get_repo\<close> takes the client's token and the full name and answers with a repository
  handle \<open>'r\<close>; \<open>get_pulls\<close> takes the handle and the state filter and gives the
  listing, as its answer to the first question of the loop (an exception of the call
  \<open>repo.get_pulls\<close> itself, which is outside every \<open>try\<close> as well, is the case
  \<open>Raises\<close> of this first answer); \<open>compare\<close> takes the handle,
  \<open>base\<close> and \<open>head\<close> and answers with the status text of the comparison;
  \<open>create_issue_comment\<close> takes the pull request and the comment body.
\<close>

record ('r, 'w) github =
  get_repo :: "string \<Rightarrow> string \<Rightarrow> 'w \<Rightarrow> (string + 'r) \<times> 'w"
  get_pulls :: "'r \<Rightarrow> string \<Rightarrow> 'w \<Rightarrow> 'w listing"
  compare :: "'r \<Rightarrow> string \<Rightarrow> string \<Rightarrow> 'w \<Rightarrow> (string + string) \<times> 'w"
  create_issue_comment :: "pull_request \<Rightarrow> string \<Rightarrow> 'w \<Rightarrow> (string + unit) \<times> 'w"

text \<open>
  What the process has done so far: the world after its requests and the texts handed to
  \<open>print\<close>, one list element per call, for standard output and for the diagnostic stream
  (where the traceback of an exception that leaves \<open>main\<close> is one more element).
  Inside the loop the two counters of \<open>main\<close> are added.
\<close>

record 'w io =
  world :: 'w
  stdout :: "string list"
  stderr :: "string list"

record 'w counters = "'w io" +
  processed_count :: int
  commented_count :: int

definition print_stdout :: "string \<Rightarrow> ('w, 'z) io_scheme \<Rightarrow> ('w, 'z) io_scheme" where
  "print_stdout line s = s\<lparr>stdout := stdout s @ [line]\<rparr>"

definition print_stderr :: "string \<Rightarrow> ('w, 'z) io_scheme \<Rightarrow> ('w, 'z) io_scheme" where
  "print_stderr line s = s\<lparr>stderr := stderr s @ [line]\<rparr>"

subsection \<open>The containment classifier\<close>

text \<open>
  \<open>contains_all_pr_commits\<close>: one comparison with \<open>base=target_branch\<close> and
  \<open>head=pr.head.sha\<close>, then \<open>comparison.status in ("behind", "identical")\<close>. An exception
  of the comparison propagates to the caller.
\<close>

definition contains_all_pr_commits ::
  "('r, 'w) github \<Rightarrow> 'r \<Rightarrow> string \<Rightarrow> pull_request \<Rightarrow> 'w \<Rightarrow> (string + bool) \<times> 'w" where
  "contains_all_pr_commits gh repo target_branch pr w =
     (case compare gh repo target_branch (head_sha pr) w of
        (Inl compare_error, w') \<Rightarrow> (Inl compare_error, w')
      | (Inr comparison_status, w') \<Rightarrow>
          (Inr (comparison_status \<in> set [''behind'', ''identical'']), w'))"

subsection \<open>The runner\<close>

text \<open>The texts of the f-strings of \<open>main\<close>.\<close>

definition repo_error_line :: "string \<Rightarrow> string \<Rightarrow> string" where
  "repo_error_line repo_name fetch_repo_error =
     ''ERROR: Could not access repo '' @ [squote] @ repo_name @ [squote] @ '': '' @ fetch_repo_error"

definition compare_failed_line :: "pull_request \<Rightarrow> string \<Rightarrow> string" where
  "compare_failed_line pr compare_error =
     ''PR #'' @ str_int (number pr) @ '': compare failed ['' @ base_ref pr @ '' <- ''
       @ head_ref pr @ '']: '' @ compare_error"

definition comment_failed_line :: "pull_request \<Rightarrow> string \<Rightarrow> string" where
  "comment_failed_line pr comment_error =
     ''PR #'' @ str_int (number pr) @ '': contains all commits, but commenting failed: ''
       @ comment_error"

definition summary_line :: "pull_request \<Rightarrow> bool \<Rightarrow> string \<Rightarrow> string" where
  "summary_line pr is_contained result =
     ''PR #'' @ str_int (number pr) @ '' ['' @ base_ref pr @ '' <- '' @ head_ref pr @ ''] ''
       @ py_repr (title pr) @ '': '' @ ''contained='' @ str_bool is_contained @ '' -> '' @ result"

definition done_line :: "int \<Rightarrow> int \<Rightarrow> string" where
  "done_line processed commented =
     ''Done. Processed '' @ str_int processed @ '' PR(s); commented on '' @ str_int commented
       @ '' PR(s).''"

text \<open>
  The body of \<open>for pr in pulls\<close>. The count of processed PRs goes up first. A failed
  comparison writes its diagnostic and \<open>continue\<close>s: nothing more happens for this PR.
  Otherwise a contained PR gets the comment (the counter goes up after the call returned,
  a raised exception writes its diagnostic instead), and the summary line is printed.
\<close>

definition loop_body ::
  "('r, 'w) github \<Rightarrow> 'r \<Rightarrow> args \<Rightarrow> pull_request \<Rightarrow> 'w counters \<Rightarrow> 'w counters" where
  "loop_body gh repo args pr s0 =
     (let s1 = s0\<lparr>processed_count := processed_count s0 + 1\<rparr> in
      case contains_all_pr_commits gh repo (args_branch args) pr (world s1) of
        (Inl compare_error, w1) \<Rightarrow>
          print_stderr (compare_failed_line pr compare_error) (s1\<lparr>world := w1\<rparr>)
      | (Inr is_contained, w1) \<Rightarrow>
          (let s2 = s1\<lparr>world := w1\<rparr>;
               (result, s3) =
                 (if is_contained then
                    (case create_issue_comment gh pr (args_status args) (world s2) of
                       (Inr u, w2) \<Rightarrow>
                         (''commented'',
                          s2\<lparr>world := w2, commented_count := commented_count s2 + 1\<rparr>)
                     | (Inl comment_error, w2) \<Rightarrow>
                         (''comment_failed'',
                          print_stderr (comment_failed_line pr comment_error) (s2\<lparr>world := w2\<rparr>)))
                  else (''not_contained'', s2))
           in print_stdout (summary_line pr is_contained result) s3))"

text \<open>
  \<open>for pr in pulls\<close>: the loop ends when the listing is exhausted, an exception of the
  listing ends it too and is handed on, and a pull request gets the loop body, after
  which the listing is asked again, in the world that the body has left. The result is
  the traceback of the exception, if there was one, with the state in which the loop ends.
\<close>

primrec pr_loop ::
  "('r, 'w) github \<Rightarrow> 'r \<Rightarrow> args \<Rightarrow> 'w listing \<Rightarrow> 'w counters
     \<Rightarrow> string option \<times> 'w counters" where
  "pr_loop gh repo args (StopIteration w) s = (None, s\<lparr>world := w\<rparr>)"
| "pr_loop gh repo args (Raises traceback w) s = (Some traceback, s\<lparr>world := w\<rparr>)"
| "pr_loop gh repo args (Yields pr w pulls) s =
     pr_loop gh repo args
       (pulls (world (loop_body gh repo args pr (s\<lparr>world := w\<rparr>))))
       (loop_body gh repo args pr (s\<lparr>world := w\<rparr>))"

text \<open>
  \<open>main\<close>, from the parsed arguments on. The result is the exit status with the final
  process state: 2 from either \<open>sys.exit(2)\<close>, 0 when \<open>main\<close> returns, and 1 when an
  exception of the listing leaves \<open>main\<close>, with its traceback on the diagnostic stream
  and without the line of totals.
\<close>

definition main :: "('r, 'w) github \<Rightarrow> args \<Rightarrow> environ \<Rightarrow> 'w \<Rightarrow> int \<times> 'w io" where
  "main gh args environ w0 =
     (let s0 = \<lparr>world = w0, stdout = [], stderr = []\<rparr> in
      case get_github_client (args_token args) environ of
        Inl (message, exit_status) \<Rightarrow> (exit_status, print_stderr message s0)
      | Inr token \<Rightarrow>
          (case get_repo gh token (args_repo args) (world s0) of
             (Inl fetch_repo_error, w1) \<Rightarrow>
               (2, print_stderr (repo_error_line (args_repo args) fetch_repo_error) (s0\<lparr>world := w1\<rparr>))
           | (Inr repo, w1) \<Rightarrow>
               (let s1 = print_stdout (''PR state: '' @ args_state args)
                          (print_stdout (''Target branch: '' @ args_branch args)
                            (print_stdout (''Repository: '' @ args_repo args) (s0\<lparr>world := w1\<rparr>)));
                    pulls = get_pulls gh repo (args_state args) (world s1);
                    (uncaught, s2) = pr_loop gh repo args pulls
                           \<lparr>world = world s1, stdout = stdout s1, stderr = stderr s1,
                            processed_count = 0, commented_count = 0\<rparr>
                in case uncaught of
                     Some traceback \<Rightarrow>
                       (1, \<lparr>world = world s2, stdout = stdout s2,
                            stderr = stderr s2 @ [traceback]\<rparr>)
                   | None \<Rightarrow>
                       (let s3 = print_stdout
                                   (done_line (processed_count s2) (commented_count s2)) s2
                        in (0, \<lparr>world = world s3, stdout = stdout s3, stderr = stderr s3\<rparr>)))))"

text \<open>
  Two program points of \<open>main\<close>, named for the statements below: the state in which the
  \<open>for\<close> loop is entered (the three header lines printed, both counters 0, \<open>w\<close> the world
  after the repository was fetched), and what happens with the result of the loop: after
  an exhausted listing \<open>main\<close> prints the totals and returns, exit status 0; after an
  exception of the listing the traceback is written and the exit status is 1.
\<close>

definition loop_start :: "args \<Rightarrow> 'w \<Rightarrow> 'w counters" where
  "loop_start args w =
     \<lparr>world = w,
      stdout = [''Repository: '' @ args_repo args, ''Target branch: '' @ args_branch args,
                ''PR state: '' @ args_state args],
      stderr = [], processed_count = 0, commented_count = 0\<rparr>"

definition after_loop :: "string option \<times> 'w counters \<Rightarrow> int \<times> 'w io" where
  "after_loop r =
     (case r of
        (None, s) \<Rightarrow>
          (0, \<lparr>world = world s,
               stdout = stdout s @ [done_line (processed_count s) (commented_count s)],
               stderr = stderr s\<rparr>)
      | (Some traceback, s) \<Rightarrow>
          (1, \<lparr>world = world s, stdout = stdout s, stderr = stderr s @ [traceback]\<rparr>))"

subsection \<open>The pull requests that a run meets\<close>

text \<open>
  What the listing yields in a run of the loop depends on the run, since the listing is
  asked in the worlds that the loop bodies leave. \<open>yielded\<close> is the sequence of pull
  requests that the listing yields to the loop started in state \<open>s\<close>, each with the world
  in which the loop body meets it. \<open>loop_after k\<close> is the loop after \<open>k\<close> iterations: what
  the listing has answered to the next question, and the state of the process; a loop
  that has ended stays as it is.
\<close>

primrec yielded ::
  "('r, 'w) github \<Rightarrow> 'r \<Rightarrow> args \<Rightarrow> 'w listing \<Rightarrow> 'w counters
     \<Rightarrow> (pull_request \<times> 'w) list" where
  "yielded gh repo args (StopIteration w) s = []"
| "yielded gh repo args (Raises traceback w) s = []"
| "yielded gh repo args (Yields pr w pulls) s =
     (pr, w) # yielded gh repo args
       (pulls (world (loop_body gh repo args pr (s\<lparr>world := w\<rparr>))))
       (loop_body gh repo args pr (s\<lparr>world := w\<rparr>))"


subsection \<open>The specification's count of commented pull requests\<close>

text \<open>
  The specification counts the PRs "for which both classification succeeded as contained
  and comment posting succeeded". For one PR, met in world \<open>w\<close>: the classifier returns
  \<open>True\<close>, and the comment request made after it returns without an exception.
\<close>

definition classified_contained_and_commented ::
  "('r, 'w) github \<Rightarrow> 'r \<Rightarrow> args \<Rightarrow> pull_request \<Rightarrow> 'w \<Rightarrow> bool" where
  "classified_contained_and_commented gh repo args pr w =
     (case contains_all_pr_commits gh repo (args_branch args) pr w of
        (Inl compare_error, w1) \<Rightarrow> False
      | (Inr is_contained, w1) \<Rightarrow>
          is_contained \<and>
          (case create_issue_comment gh pr (args_status args) w1 of
             (Inl comment_error, w2) \<Rightarrow> False
           | (Inr u, w2) \<Rightarrow> True))"

subsection \<open>A sample run\<close>

text \<open>
  Five pull requests of \<open>acme/widgets\<close>, checked against \<open>release/qa\<close>. The sample host
  lists them in two pages of three and two, answers the comparisons with identical, an
  error, behind, ahead and behind, refuses the comment on PR 13, and keeps a log of the
  requests it receives as its world. A second host differs in its listing: the request
  for the second page fails.
\<close>

definition demo_pr11 :: pull_request where
  "demo_pr11 = \<lparr>number = 11, title = ''Add login'', base_ref = ''main'',
                 head_ref = ''feature/login'', head_sha = ''a1''\<rparr>"

definition demo_pr12 :: pull_request where
  "demo_pr12 = \<lparr>number = 12, title = ''Old work'', base_ref = ''main'',
                 head_ref = ''gone'', head_sha = ''b2''\<rparr>"

definition demo_pr13 :: pull_request where
  "demo_pr13 = \<lparr>number = 13, title = ''Fix Bob's cart'', base_ref = ''develop'',
                 head_ref = ''fix/cart'', head_sha = ''c3''\<rparr>"

definition demo_pr14 :: pull_request where
  "demo_pr14 = \<lparr>number = 14, title = ''Bump deps'', base_ref = ''main'',
                 head_ref = ''chore/deps'', head_sha = ''d4''\<rparr>"

definition demo_pr15 :: pull_request where
  "demo_pr15 = \<lparr>number = 15, title = ''Docs'', base_ref = ''main'',
                 head_ref = ''docs'', head_sha = ''e5''\<rparr>"

definition demo_github :: "(string, string list) github" where
  "demo_github =
     \<lparr>get_repo = (\<lambda>token full_name w.
         (if full_name = ''acme/widgets'' then Inr full_name else Inl ''404 Not Found'',
          w @ [''get_repo''])),
      get_pulls = (\<lambda>repo st w.
         Yields demo_pr11 (w @ [''get_pulls'']) (\<lambda>w.
         Yields demo_pr12 w (\<lambda>w.
         Yields demo_pr13 w (\<lambda>w.
         Yields demo_pr14 (w @ [''get_pulls'']) (\<lambda>w.
         Yields demo_pr15 w (\<lambda>w.
         StopIteration w)))))),
      compare = (\<lambda>repo base head w.
         (if head = ''a1'' then Inr ''identical''
          else if head = ''c3'' then Inr ''behind''
          else if head = ''d4'' then Inr ''ahead''
          else if head = ''e5'' then Inr ''behind''
          else Inl ''404 Not Found'',
          w @ [''compare''])),
      create_issue_comment = (\<lambda>pr body w.
         (if number pr = 13 then Inl ''403 Forbidden'' else Inr (),
          w @ [''create_issue_comment'']))\<rparr>"

definition demo_traceback :: string where
  "demo_traceback = ''Traceback (most recent call last): ... GithubException: 502''"

definition demo_broken_github :: "(string, string list) github" where
  "demo_broken_github =
     demo_github\<lparr>get_pulls := (\<lambda>repo st w.
         Yields demo_pr11 (w @ [''get_pulls'']) (\<lambda>w.
         Yields demo_pr12 w (\<lambda>w.
         Yields demo_pr13 w (\<lambda>w.
         Raises demo_traceback (w @ [''get_pulls''])))))\<rparr>"

definition demo_args :: args where
  "demo_args = \<lparr>args_repo = ''acme/widgets'', args_branch = ''release/qa'',
                 args_status = ''in qa'', args_state = ''open'', args_token = None\<rparr>"

definition demo_environ :: environ where
  "demo_environ = [''GITHUB_TOKEN'' \<mapsto> [], ''TOKEN'' \<mapsto> ''t-last'', ''GH_TOKEN'' \<mapsto> ''t-second'']"

text \<open>An environment in which none of the four variables holds a non-empty value.\<close>

definition demo_bare_environ :: environ where
  "demo_bare_environ = [''GITHUB_TOKEN'' \<mapsto> [], ''HOME'' \<mapsto> ''/root'']"

section \<open>Properties\<close>

subsection \<open>Auxiliary facts\<close>

lemma probe_env_vars_find:
  "probe_env_vars environ vars =
     (case find (\<lambda>v. environ v \<noteq> None \<and> environ v \<noteq> Some []) vars of
        None \<Rightarrow> None | Some v \<Rightarrow> environ v)"
  by (induction vars) (auto split: option.splits)

lemma probe_env_vars_None:
  "probe_env_vars environ vars = None \<longleftrightarrow>
     (\<forall>v \<in> set vars. environ v = None \<or> environ v = Some [])"
  by (induction vars) (auto split: option.splits)

lemma probe_env_vars_nonempty: "probe_env_vars environ vars \<noteq> Some []"
  by (induction vars) (auto split: option.splits)

lemma get_github_client_explicit:
  "t \<noteq> [] \<Longrightarrow> get_github_client (Some t) environ = Inr t"
  by (simp add: get_github_client_def py_or_def)

lemma get_github_client_from_environment:
  "explicit_token = None \<or> explicit_token = Some [] \<Longrightarrow>
   get_github_client explicit_token environ =
     (case read_token_from_environment environ of
        None \<Rightarrow> Inl (no_token_message, 2) | Some t \<Rightarrow> Inr t)"
  using probe_env_vars_nonempty [of environ candidate_env_vars]
  by (auto simp add: get_github_client_def py_or_def read_token_from_environment_def
      split: option.splits)


lemma loop_body_not_contained:
  assumes "compare gh repo (args_branch args) (head_sha pr) (world s) = (Inr st, w1)"
    and "st \<noteq> ''behind''" and "st \<noteq> ''identical''"
  shows "loop_body gh repo args pr s =
           s\<lparr>world := w1, stdout := stdout s @ [summary_line pr False ''not_contained''],
             processed_count := processed_count s + 1\<rparr>"
  using assms by (simp add: loop_body_def contains_all_pr_commits_def print_stdout_def)

lemma loop_body_commented:
  assumes "compare gh repo (args_branch args) (head_sha pr) (world s) = (Inr st, w1)"
    and "st = ''behind'' \<or> st = ''identical''"
    and "create_issue_comment gh pr (args_status args) w1 = (Inr u, w2)"
  shows "loop_body gh repo args pr s =
           s\<lparr>world := w2, stdout := stdout s @ [summary_line pr True ''commented''],
             processed_count := processed_count s + 1,
             commented_count := commented_count s + 1\<rparr>"
  using assms
  by (auto simp add: loop_body_def contains_all_pr_commits_def print_stdout_def)

lemma loop_body_comment_failed:
  assumes "compare gh repo (args_branch args) (head_sha pr) (world s) = (Inr st, w1)"
    and "st = ''behind'' \<or> st = ''identical''"
    and "create_issue_comment gh pr (args_status args) w1 = (Inl e, w2)"
  shows "loop_body gh repo args pr s =
           s\<lparr>world := w2, stdout := stdout s @ [summary_line pr True ''comment_failed''],
             stderr := stderr s @ [comment_failed_line pr e],
             processed_count := processed_count s + 1\<rparr>"
  using assms
  by (auto simp add: loop_body_def contains_all_pr_commits_def print_stdout_def
      print_stderr_def)

lemma loop_body_processed_count:
  "processed_count (loop_body gh repo args pr s) = processed_count s + 1"
  by (simp add: loop_body_def print_stdout_def print_stderr_def Let_def
      split: prod.splits sum.splits)

lemma loop_body_commented_count:
  "commented_count (loop_body gh repo args pr s) =
     commented_count s +
     (if classified_contained_and_commented gh repo args pr (world s) then 1 else 0)"
  by (simp add: loop_body_def classified_contained_and_commented_def print_stdout_def
      print_stderr_def Let_def split: prod.splits sum.splits)


text \<open>The loop reads only \<open>args.branch\<close> and \<open>args.status\<close>.\<close>

lemma loop_body_args_cong:
  assumes "args_branch a = args_branch b" and "args_status a = args_status b"
  shows "loop_body gh repo a pr s = loop_body gh repo b pr s"
  unfolding loop_body_def assms by (rule refl)

lemma pr_loop_args_cong:
  assumes "args_branch a = args_branch b" and "args_status a = args_status b"
  shows "pr_loop gh repo a pulls s = pr_loop gh repo b pulls s"
  using assms by (induction pulls arbitrary: s) (simp_all add: loop_body_args_cong [of a b])

text \<open>Both counters count over the pull requests that the run meets.\<close>

lemma pr_loop_processed_count:
  "processed_count (snd (pr_loop gh repo args pulls s)) =
     processed_count s + int (length (yielded gh repo args pulls s))"
  by (induction pulls arbitrary: s) (simp_all add: loop_body_processed_count)

lemma pr_loop_commented_count:
  "commented_count (snd (pr_loop gh repo args pulls s)) =
     commented_count s +
     int (length (filter (\<lambda>(pr, w). classified_contained_and_commented gh repo args pr w)
                    (yielded gh repo args pulls s)))"
  by (induction pulls arbitrary: s) (simp_all add: loop_body_commented_count)





lemma main_reaches_loop:
  assumes "get_github_client (args_token args) environ = Inr token"
    and "get_repo gh token (args_repo args) w0 = (Inr repo, w1)"
  shows "main gh args environ w0 =
           after_loop (pr_loop gh repo args (get_pulls gh repo (args_state args) w1)
                         (loop_start args w1))"
  using assms
  by (simp add: main_def print_stdout_def after_loop_def loop_start_def Let_def
      split: prod.splits option.splits)

lemma main_no_token:
  assumes "get_github_client (args_token args) environ = Inl (message, exit_status)"
  shows "main gh args environ w0 =
           (exit_status, \<lparr>world = w0, stdout = [], stderr = [message]\<rparr>)"
  using assms by (simp add: main_def print_stderr_def)



lemma py_repr_plain:
  assumes "\<forall>ch \<in> set s. is_printable ch \<and> ch \<noteq> squote \<and> ch \<noteq> backslash"
  shows "py_repr s = squote # s @ [squote]"
proof -
  have "squote \<notin> set s"
    using assms by blast
  moreover have "concat (map (repr_char squote) s) = s"
    using assms
  proof (induction s)
    case Nil
    then show ?case by simp
  next
    case (Cons ch s)
    then have "is_printable ch" and "ch \<noteq> squote" and "ch \<noteq> backslash"
      by simp_all
    moreover from \<open>is_printable ch\<close> have "ch \<noteq> CHR 0x09" and "ch \<noteq> CHR 0x0A" and "ch \<noteq> CHR 0x0D"
      by (auto simp add: is_printable_def)
    ultimately have "repr_char squote ch = [ch]"
      by (simp add: repr_char_def)
    with Cons show ?case by simp
  qed
  ultimately show ?thesis
    by (simp add: py_repr_def)
qed

subsection \<open>The sample runs, evaluated\<close>

lemmas demo_defs = demo_github_def demo_args_def demo_environ_def demo_pr11_def demo_pr12_def
  demo_pr13_def demo_pr14_def demo_pr15_def

lemmas text_defs = summary_line_def compare_failed_line_def comment_failed_line_def
  done_line_def str_int_def str_nat.simps digit_char_def str_bool_def py_repr_def
  repr_char_def squote_def dquote_def backslash_def is_printable_def no_token_message_def

lemma demo_token: "get_github_client (args_token demo_args) demo_environ = Inr ''t-second''"
  by (simp add: get_github_client_def py_or_def read_token_from_environment_def
      candidate_env_vars_def demo_args_def demo_environ_def)

lemma demo_repo:
  "get_repo demo_github ''t-second'' (args_repo demo_args) [] = (Inr ''acme/widgets'', [''get_repo''])"
  by (simp add: demo_github_def demo_args_def)

lemma demo_broken_repo:
  "get_repo demo_broken_github ''t-second'' (args_repo demo_args) [] =
     (Inr ''acme/widgets'', [''get_repo''])"
  by (simp add: demo_broken_github_def demo_github_def demo_args_def)


lemma demo_loop:
  "pr_loop demo_github ''acme/widgets'' demo_args
     (get_pulls demo_github ''acme/widgets'' (args_state demo_args) [''get_repo''])
     (loop_start demo_args [''get_repo'']) =
   (None,
    \<lparr>world = [''get_repo'', ''get_pulls'', ''compare'', ''create_issue_comment'',
              ''compare'', ''compare'', ''create_issue_comment'', ''get_pulls'', ''compare'',
              ''compare'', ''create_issue_comment''],
     stdout = [''Repository: acme/widgets'', ''Target branch: release/qa'', ''PR state: open'',
               ''PR #11 [main <- feature/login] 'Add login': contained=True -> commented'',
               ''PR #13 [develop <- fix/cart] '' @ [CHR 0x22] @ ''Fix Bob's cart'' @ [CHR 0x22]
                 @ '': contained=True -> comment_failed'',
               ''PR #14 [main <- chore/deps] 'Bump deps': contained=False -> not_contained'',
               ''PR #15 [main <- docs] 'Docs': contained=True -> commented''],
     stderr = [''PR #12: compare failed [main <- gone]: 404 Not Found'',
               ''PR #13: contains all commits, but commenting failed: 403 Forbidden''],
     processed_count = 5, commented_count = 2\<rparr>)"
  by (simp add: loop_start_def loop_body_def contains_all_pr_commits_def print_stdout_def
      print_stderr_def text_defs demo_defs Let_def)

lemma demo_yielded:
  "yielded demo_github ''acme/widgets'' demo_args
     (get_pulls demo_github ''acme/widgets'' (args_state demo_args) [''get_repo''])
     (loop_start demo_args [''get_repo'']) =
   [(demo_pr11, [''get_repo'', ''get_pulls'']),
    (demo_pr12, [''get_repo'', ''get_pulls'', ''compare'', ''create_issue_comment'']),
    (demo_pr13, [''get_repo'', ''get_pulls'', ''compare'', ''create_issue_comment'', ''compare'']),
    (demo_pr14, [''get_repo'', ''get_pulls'', ''compare'', ''create_issue_comment'', ''compare'',
                 ''compare'', ''create_issue_comment'', ''get_pulls'']),
    (demo_pr15, [''get_repo'', ''get_pulls'', ''compare'', ''create_issue_comment'', ''compare'',
                 ''compare'', ''create_issue_comment'', ''get_pulls'', ''compare''])]"
  by (simp add: loop_start_def loop_body_def contains_all_pr_commits_def print_stdout_def
      print_stderr_def demo_defs Let_def)


lemma demo_broken_loop:
  "pr_loop demo_broken_github ''acme/widgets'' demo_args
     (get_pulls demo_broken_github ''acme/widgets'' (args_state demo_args) [''get_repo''])
     (loop_start demo_args [''get_repo'']) =
   (Some demo_traceback,
    \<lparr>world = [''get_repo'', ''get_pulls'', ''compare'', ''create_issue_comment'',
              ''compare'', ''compare'', ''create_issue_comment'', ''get_pulls''],
     stdout = [''Repository: acme/widgets'', ''Target branch: release/qa'', ''PR state: open'',
               ''PR #11 [main <- feature/login] 'Add login': contained=True -> commented'',
               ''PR #13 [develop <- fix/cart] '' @ [CHR 0x22] @ ''Fix Bob's cart'' @ [CHR 0x22]
                 @ '': contained=True -> comment_failed''],
     stderr = [''PR #12: compare failed [main <- gone]: 404 Not Found'',
               ''PR #13: contains all commits, but commenting failed: 403 Forbidden''],
     processed_count = 3, commented_count = 1\<rparr>)"
  by (simp add: loop_start_def loop_body_def contains_all_pr_commits_def print_stdout_def
      print_stderr_def text_defs demo_broken_github_def demo_defs Let_def)

lemma demo_broken_run:
  "main demo_broken_github demo_args demo_environ [] =
     (1, \<lparr>world = [''get_repo'', ''get_pulls'', ''compare'', ''create_issue_comment'',
                   ''compare'', ''compare'', ''create_issue_comment'', ''get_pulls''],
          stdout = [''Repository: acme/widgets'', ''Target branch: release/qa'',
                    ''PR state: open'',
                    ''PR #11 [main <- feature/login] 'Add login': contained=True -> commented'',
                    ''PR #13 [develop <- fix/cart] '' @ [CHR 0x22] @ ''Fix Bob's cart'' @ [CHR 0x22]
                      @ '': contained=True -> comment_failed''],
          stderr = [''PR #12: compare failed [main <- gone]: 404 Not Found'',
                    ''PR #13: contains all commits, but commenting failed: 403 Forbidden'',
                    demo_traceback]\<rparr>)"
  unfolding main_reaches_loop [OF demo_token demo_broken_repo] demo_broken_loop
  by (simp add: after_loop_def)

section \<open>The claims\<close>

text \<open>
  C1. For every pull request, the containment classifier returns contained = true exactly
  when the comparison with base = target branch and head = the PR's head SHA has status
  "identical" or "behind", and contained = false when the status is "ahead" or "diverged".
\<close>

theorem contains_all_pr_commits_by_status:
  assumes "compare gh repo target_branch (head_sha pr) w = (Inr st, w')"
  shows "contains_all_pr_commits gh repo target_branch pr w =
           (Inr (st = ''identical'' \<or> st = ''behind''), w')
         \<and> (st = ''ahead'' \<or> st = ''diverged'' \<longrightarrow>
              contains_all_pr_commits gh repo target_branch pr w = (Inr False, w'))"
  using assms by (auto simp add: contains_all_pr_commits_def)

theorem contains_all_pr_commits_by_status_witness:
  "compare demo_github ''acme/widgets'' ''release/qa'' (head_sha demo_pr15) [] =
     (Inr ''behind'', [''compare''])
   \<and> contains_all_pr_commits demo_github ''acme/widgets'' ''release/qa'' demo_pr15 [] =
     (Inr True, [''compare''])
   \<and> compare demo_github ''acme/widgets'' ''release/qa'' (head_sha demo_pr14) [] =
     (Inr ''ahead'', [''compare''])
   \<and> contains_all_pr_commits demo_github ''acme/widgets'' ''release/qa'' demo_pr14 [] =
     (Inr False, [''compare''])"
proof -
  have c15: "compare demo_github ''acme/widgets'' ''release/qa'' (head_sha demo_pr15) [] =
               (Inr ''behind'', [''compare''])"
    by (simp add: demo_github_def demo_pr15_def)
  have c14: "compare demo_github ''acme/widgets'' ''release/qa'' (head_sha demo_pr14) [] =
               (Inr ''ahead'', [''compare''])"
    by (simp add: demo_github_def demo_pr14_def)
  show ?thesis
    using c15 c14 contains_all_pr_commits_by_status [OF c15]
      contains_all_pr_commits_by_status [OF c14]
    by simp
qed



text \<open>
  C3, as amended. When \<open>--token\<close> is supplied with a non-empty value, that token is the one
  the client is built with, whatever the environment holds: the run is the same for every
  environment.
\<close>

theorem explicit_token_takes_precedence:
  assumes "args_token args = Some t" and "t \<noteq> []"
  shows "get_github_client (args_token args) environ = Inr t
         \<and> main gh args environ w0 = main gh args environ' w0"
  using assms by (simp add: get_github_client_explicit main_def)

theorem explicit_token_takes_precedence_witness:
  "args_token (demo_args\<lparr>args_token := Some ''t-arg''\<rparr>) = Some ''t-arg'' \<and> ''t-arg'' \<noteq> []
   \<and> get_github_client (args_token (demo_args\<lparr>args_token := Some ''t-arg''\<rparr>)) demo_environ
       = Inr ''t-arg''
   \<and> main demo_github (demo_args\<lparr>args_token := Some ''t-arg''\<rparr>) demo_environ []
       = main demo_github (demo_args\<lparr>args_token := Some ''t-arg''\<rparr>) Map.empty []"
  using explicit_token_takes_precedence
    [of "demo_args\<lparr>args_token := Some ''t-arg''\<rparr>" "''t-arg''" demo_environ demo_github "[]" Map.empty]
  by simp

text \<open>
  C3, as stated, fails for an empty \<open>--token\<close> value: the token of the environment is used
  instead of the one supplied.
\<close>

theorem empty_explicit_token_loses_to_environment:
  "get_github_client (Some []) [''GITHUB_TOKEN'' \<mapsto> ''from-env''] = Inr ''from-env''"
  by (simp add: get_github_client_def py_or_def read_token_from_environment_def
      candidate_env_vars_def)

text \<open>
  C4. Without an explicit token, the lookup probes exactly the variables GITHUB\_TOKEN,
  GH\_TOKEN, GITHUB\_PAT, TOKEN in this order and returns the value of the first that holds
  a non-empty value; when none does, no token is found.
\<close>

theorem read_token_from_environment_order:
  "read_token_from_environment environ =
     (case find (\<lambda>v. environ v \<noteq> None \<and> environ v \<noteq> Some [])
             [''GITHUB_TOKEN'', ''GH_TOKEN'', ''GITHUB_PAT'', ''TOKEN''] of
        None \<Rightarrow> None
      | Some v \<Rightarrow> environ v)
   \<and> (read_token_from_environment environ = None \<longleftrightarrow>
        (\<forall>v \<in> set [''GITHUB_TOKEN'', ''GH_TOKEN'', ''GITHUB_PAT'', ''TOKEN''].
           environ v = None \<or> environ v = Some []))"
  unfolding read_token_from_environment_def candidate_env_vars_def
  using probe_env_vars_find probe_env_vars_None by blast

theorem read_token_from_environment_order_witness:
  "read_token_from_environment demo_environ = Some ''t-second''
   \<and> read_token_from_environment [''OTHER'' \<mapsto> ''x'', ''GITHUB_PAT'' \<mapsto> []] = None"
  using read_token_from_environment_order [of demo_environ]
    read_token_from_environment_order [of "[''OTHER'' \<mapsto> ''x'', ''GITHUB_PAT'' \<mapsto> []]"]
  by (simp add: demo_environ_def)

text \<open>
  C5. When no token source yields a value (no \<open>--token\<close> or an empty one, and none of the
  four variables set to a non-empty value), the run ends with exit status 2, its only
  output is the error line on the diagnostic stream, and no request is made: whatever the
  host is, the world is left as it was.
\<close>

theorem no_token_exits_2_without_requests:
  assumes "args_token args = None \<or> args_token args = Some []"
    and "\<forall>v \<in> set [''GITHUB_TOKEN'', ''GH_TOKEN'', ''GITHUB_PAT'', ''TOKEN''].
           environ v = None \<or> environ v = Some []"
  shows "main gh args environ w0 =
           (2, \<lparr>world = w0, stdout = [],
                stderr = [''ERROR: No GitHub token provided. Set GITHUB_TOKEN (or GH_TOKEN) or pass --token.'']\<rparr>)"
proof -
  have "read_token_from_environment environ = None"
    using assms(2) probe_env_vars_None [of environ candidate_env_vars]
    by (simp add: read_token_from_environment_def candidate_env_vars_def)
  then have "get_github_client (args_token args) environ = Inl (no_token_message, 2)"
    using get_github_client_from_environment [OF assms(1), of environ] by simp
  then show ?thesis
    by (simp add: main_no_token no_token_message_def)
qed

theorem no_token_exits_2_without_requests_witness:
  "(args_token demo_args = None \<or> args_token demo_args = Some [])
   \<and> demo_bare_environ ''GITHUB_TOKEN'' = Some [] \<and> demo_bare_environ ''GH_TOKEN'' = None
   \<and> demo_bare_environ ''GITHUB_PAT'' = None \<and> demo_bare_environ ''TOKEN'' = None
   \<and> main demo_github demo_args demo_bare_environ [] =
       (2, \<lparr>world = [], stdout = [],
            stderr = [''ERROR: No GitHub token provided. Set GITHUB_TOKEN (or GH_TOKEN) or pass --token.'']\<rparr>)"
proof -
  have a: "args_token demo_args = None \<or> args_token demo_args = Some []"
    by (simp add: demo_args_def)
  have vars: "demo_bare_environ ''GITHUB_TOKEN'' = Some []" "demo_bare_environ ''GH_TOKEN'' = None"
    "demo_bare_environ ''GITHUB_PAT'' = None" "demo_bare_environ ''TOKEN'' = None"
    by (simp_all add: demo_bare_environ_def)
  have b: "\<forall>v \<in> set [''GITHUB_TOKEN'', ''GH_TOKEN'', ''GITHUB_PAT'', ''TOKEN''].
             demo_bare_environ v = None \<or> demo_bare_environ v = Some []"
    using vars by simp
  show ?thesis
    using a vars no_token_exits_2_without_requests [OF a b, of demo_github "[]"] by blast
qed



text \<open>
  C7. In every run that reaches the loop, the commented count with which the loop ends
  equals the number of PRs yielded by the listing for which the classification succeeded
  with contained = true and the comment request succeeded, each PR taken in the world in
  which the loop meets it; the final summary, printed when the listing ends without an
  exception, reports this number.
\<close>

theorem commented_count_is_posted_count:
  assumes "get_github_client (args_token args) environ = Inr token"
    and "get_repo gh token (args_repo args) w0 = (Inr repo, w1)"
    and "pulls = get_pulls gh repo (args_state args) w1"
    and "pr_loop gh repo args pulls (loop_start args w1) = (uncaught, s)"
    and "posted = filter (\<lambda>(pr, w). classified_contained_and_commented gh repo args pr w)
                    (yielded gh repo args pulls (loop_start args w1))"
  shows "commented_count s = int (length posted)
         \<and> (uncaught = None \<longrightarrow>
              last (stdout (snd (main gh args environ w0))) =
                ''Done. Processed ''
                  @ str_int (int (length (yielded gh repo args pulls (loop_start args w1))))
                  @ '' PR(s); commented on '' @ str_int (int (length posted)) @ '' PR(s).'')"
proof -
  have zero: "commented_count (loop_start args w1) = 0" "processed_count (loop_start args w1) = 0"
    by (simp_all add: loop_start_def)
  have commented: "commented_count s = int (length posted)"
    using pr_loop_commented_count [of gh repo args pulls "loop_start args w1"]
    unfolding assms(4) assms(5) [symmetric] zero by simp
  have processed: "processed_count s =
                     int (length (yielded gh repo args pulls (loop_start args w1)))"
    using pr_loop_processed_count [of gh repo args pulls "loop_start args w1"]
    unfolding assms(4) zero by simp
  have run: "main gh args environ w0 = after_loop (uncaught, s)"
    using main_reaches_loop [OF assms(1,2)] assms(3,4) by simp
  show ?thesis
    unfolding run commented [symmetric] processed [symmetric]
    by (simp add: after_loop_def done_line_def)
qed

theorem commented_count_is_posted_count_witness:
  "int (length (filter (\<lambda>(pr, w). classified_contained_and_commented demo_github
                                   ''acme/widgets'' demo_args pr w)
                  (yielded demo_github ''acme/widgets'' demo_args
                     (get_pulls demo_github ''acme/widgets'' (args_state demo_args) [''get_repo''])
                     (loop_start demo_args [''get_repo''])))) = 2
   \<and> last (stdout (snd (main demo_github demo_args demo_environ []))) =
       ''Done. Processed 5 PR(s); commented on 2 PR(s).''"
proof -
  note run = commented_count_is_posted_count [OF demo_token demo_repo refl demo_loop refl]
  have two: "int (length (filter (\<lambda>(pr, w). classified_contained_and_commented demo_github
                                   ''acme/widgets'' demo_args pr w)
                  (yielded demo_github ''acme/widgets'' demo_args
                     (get_pulls demo_github ''acme/widgets'' (args_state demo_args) [''get_repo''])
                     (loop_start demo_args [''get_repo''])))) = 2"
    using run [THEN conjunct1] by simp
  have five: "length (yielded demo_github ''acme/widgets'' demo_args
       (get_pulls demo_github ''acme/widgets'' (args_state demo_args) [''get_repo''])
       (loop_start demo_args [''get_repo''])) = 5"
    unfolding demo_yielded by simp
  have "last (stdout (snd (main demo_github demo_args demo_environ []))) =
          ''Done. Processed '' @ str_int (int 5) @ '' PR(s); commented on '' @ str_int 2
            @ '' PR(s).''"
    using run [THEN conjunct2] unfolding two five by simp
  then have "last (stdout (snd (main demo_github demo_args demo_environ []))) =
       ''Done. Processed 5 PR(s); commented on 2 PR(s).''"
    by (simp add: str_int_def str_nat.simps digit_char_def)
  with two show ?thesis
    by (rule conjI)
qed

text \<open>
  C8, as amended. For a processed PR whose comparison request returns, exactly one line is
  added to standard output, of the form
  \<open>PR #<n> [<base> <- <head>] <repr of title>: contained=<True or False> -> <outcome>\<close>
  with the outcome \<open>not_contained\<close>, \<open>commented\<close> or \<open>comment_failed\<close>, also when the
  comment request fails; the repr of a title of printable characters without apostrophe
  and backslash is the title between apostrophes. For a processed PR whose comparison
  request fails, nothing is added to standard output.
\<close>

theorem summary_line_when_compared:
  "stdout (loop_body gh repo args pr s) =
     (case compare gh repo (args_branch args) (head_sha pr) (world s) of
        (Inl compare_error, w1) \<Rightarrow> stdout s
      | (Inr st, w1) \<Rightarrow>
          stdout s @
          [''PR #'' @ str_int (number pr) @ '' ['' @ base_ref pr @ '' <- '' @ head_ref pr @ ''] ''
            @ py_repr (title pr) @ '': contained=''
            @ (if st = ''identical'' \<or> st = ''behind'' then ''True'' else ''False'') @ '' -> ''
            @ (if st = ''identical'' \<or> st = ''behind''
               then (case create_issue_comment gh pr (args_status args) w1 of
                       (Inr u, w2) \<Rightarrow> ''commented''
                     | (Inl comment_error, w2) \<Rightarrow> ''comment_failed'')
               else ''not_contained'')])
   \<and> ((\<forall>ch \<in> set (title pr). is_printable ch \<and> ch \<noteq> CHR 0x27 \<and> ch \<noteq> CHR 0x5C) \<longrightarrow>
        py_repr (title pr) = [CHR 0x27] @ title pr @ [CHR 0x27])"
proof -
  have lines: "stdout (loop_body gh repo args pr s) =
     (case compare gh repo (args_branch args) (head_sha pr) (world s) of
        (Inl compare_error, w1) \<Rightarrow> stdout s
      | (Inr st, w1) \<Rightarrow>
          stdout s @
          [''PR #'' @ str_int (number pr) @ '' ['' @ base_ref pr @ '' <- '' @ head_ref pr @ ''] ''
            @ py_repr (title pr) @ '': contained=''
            @ (if st = ''identical'' \<or> st = ''behind'' then ''True'' else ''False'') @ '' -> ''
            @ (if st = ''identical'' \<or> st = ''behind''
               then (case create_issue_comment gh pr (args_status args) w1 of
                       (Inr u, w2) \<Rightarrow> ''commented''
                     | (Inl comment_error, w2) \<Rightarrow> ''comment_failed'')
               else ''not_contained'')])"
    by (auto simp add: loop_body_def contains_all_pr_commits_def print_stdout_def
        print_stderr_def summary_line_def str_bool_def Let_def split: prod.splits sum.splits)
  have plain: "(\<forall>ch \<in> set (title pr). is_printable ch \<and> ch \<noteq> CHR 0x27 \<and> ch \<noteq> CHR 0x5C) \<longrightarrow>
        py_repr (title pr) = [CHR 0x27] @ title pr @ [CHR 0x27]"
    using py_repr_plain [of "title pr"] by (simp add: squote_def backslash_def)
  show ?thesis
    using lines plain by (rule conjI)
qed

theorem summary_line_when_compared_witness:
  "stdout (loop_body demo_github ''acme/widgets'' demo_args demo_pr14
      (loop_start demo_args [''get_repo'', ''get_pulls''])) =
     stdout (loop_start demo_args [''get_repo'', ''get_pulls'']) @
       [''PR #14 [main <- chore/deps] 'Bump deps': contained=False -> not_contained'']
   \<and> py_repr (title demo_pr14) = [CHR 0x27] @ ''Bump deps'' @ [CHR 0x27]"
proof -
  have plain: "\<forall>ch \<in> set (title demo_pr14). is_printable ch \<and> ch \<noteq> CHR 0x27 \<and> ch \<noteq> CHR 0x5C"
    by (simp add: demo_pr14_def is_printable_def)
  have cmp: "compare demo_github ''acme/widgets'' (args_branch demo_args) (head_sha demo_pr14)
               (world (loop_start demo_args [''get_repo'', ''get_pulls''])) =
               (Inr ''ahead'', [''get_repo'', ''get_pulls'', ''compare''])"
    by (simp add: demo_github_def demo_pr14_def loop_start_def)
  note line = summary_line_when_compared
    [of demo_github "''acme/widgets''" demo_args demo_pr14
       "loop_start demo_args [''get_repo'', ''get_pulls'']"]
  have repr: "py_repr (title demo_pr14) = [CHR 0x27] @ title demo_pr14 @ [CHR 0x27]"
    using line plain by blast
  have out: "stdout (loop_body demo_github ''acme/widgets'' demo_args demo_pr14
               (loop_start demo_args [''get_repo'', ''get_pulls''])) =
     stdout (loop_start demo_args [''get_repo'', ''get_pulls'']) @
       [''PR #14 [main <- chore/deps] 'Bump deps': contained=False -> not_contained'']"
    using line [THEN conjunct1] unfolding cmp repr
    by (simp add: demo_pr14_def str_int_def str_nat.simps digit_char_def)
  have "py_repr (title demo_pr14) = [CHR 0x27] @ ''Bump deps'' @ [CHR 0x27]"
    using repr by (simp add: demo_pr14_def)
  with out show ?thesis
    by (rule conjI)
qed

text \<open>
  C8, as stated, fails for a PR whose comparison request fails: PR 12 of the sample is
  counted as processed, and standard output is left as it was.
\<close>

theorem no_summary_line_after_compare_failure:
  "processed_count (loop_body demo_github ''acme/widgets'' demo_args demo_pr12
      (loop_start demo_args [''get_repo'', ''get_pulls''])) = 1
   \<and> stdout (loop_body demo_github ''acme/widgets'' demo_args demo_pr12 (loop_start demo_args [''get_repo'', ''get_pulls''])) =
       stdout (loop_start demo_args [''get_repo'', ''get_pulls''])
   \<and> stderr (loop_body demo_github ''acme/widgets'' demo_args demo_pr12 (loop_start demo_args [''get_repo'', ''get_pulls''])) =
       [''PR #12: compare failed [main <- gone]: 404 Not Found'']"
  by (simp add: loop_body_def contains_all_pr_commits_def print_stderr_def loop_start_def
      compare_failed_line_def str_int_def str_nat.simps digit_char_def demo_github_def
      demo_pr12_def demo_args_def)

text \<open>
  C9. When a PR that the listing yields is classified as contained and the comment request
  raises, the summary line of the PR has the outcome \<open>comment_failed\<close>, the error is
  written to the diagnostic stream with the PR's number, the commented count stays as it
  was, and the loop goes on with the rest of the listing.
\<close>

theorem comment_failure_is_recorded:
  assumes "compare gh repo (args_branch args) (head_sha pr) w = (Inr st, w1)"
    and "st = ''identical'' \<or> st = ''behind''"
    and "create_issue_comment gh pr (args_status args) w1 = (Inl e, w2)"
  shows "pr_loop gh repo args (Yields pr w rest) s =
           pr_loop gh repo args (rest w2)
             (s\<lparr>world := w2,
                stdout := stdout s @
                  [''PR #'' @ str_int (number pr) @ '' ['' @ base_ref pr @ '' <- '' @ head_ref pr
                     @ ''] '' @ py_repr (title pr) @ '': contained=True -> comment_failed''],
                stderr := stderr s @
                  [''PR #'' @ str_int (number pr)
                     @ '': contains all commits, but commenting failed: '' @ e],
                processed_count := processed_count s + 1\<rparr>)
         \<and> commented_count (loop_body gh repo args pr (s\<lparr>world := w\<rparr>)) = commented_count s"
proof -
  have "loop_body gh repo args pr (s\<lparr>world := w\<rparr>) =
          (s\<lparr>world := w\<rparr>)\<lparr>world := w2,
             stdout := stdout (s\<lparr>world := w\<rparr>) @ [summary_line pr True ''comment_failed''],
             stderr := stderr (s\<lparr>world := w\<rparr>) @ [comment_failed_line pr e],
             processed_count := processed_count (s\<lparr>world := w\<rparr>) + 1\<rparr>"
    using _ _ assms(3)
    by (rule loop_body_comment_failed) (use assms(1,2) in auto)
  then have body: "loop_body gh repo args pr (s\<lparr>world := w\<rparr>) =
          s\<lparr>world := w2,
            stdout := stdout s @
              [''PR #'' @ str_int (number pr) @ '' ['' @ base_ref pr @ '' <- '' @ head_ref pr
                 @ ''] '' @ py_repr (title pr) @ '': contained=True -> comment_failed''],
            stderr := stderr s @
              [''PR #'' @ str_int (number pr)
                 @ '': contains all commits, but commenting failed: '' @ e],
            processed_count := processed_count s + 1\<rparr>"
    by (simp add: comment_failed_line_def summary_line_def str_bool_def)
  show ?thesis
    unfolding pr_loop.simps body by simp
qed

theorem comment_failure_is_recorded_witness:
  "create_issue_comment demo_github demo_pr13 (args_status demo_args)
       [''get_repo'', ''get_pulls'', ''compare''] =
     (Inl ''403 Forbidden'', [''get_repo'', ''get_pulls'', ''compare'', ''create_issue_comment''])
   \<and> pr_loop demo_github ''acme/widgets'' demo_args
       (Yields demo_pr13 [''get_repo'', ''get_pulls''] StopIteration)
       (loop_start demo_args [''get_repo'']) =
     (None,
      \<lparr>world = [''get_repo'', ''get_pulls'', ''compare'', ''create_issue_comment''],
       stdout = [''Repository: acme/widgets'', ''Target branch: release/qa'', ''PR state: open'',
                 ''PR #13 [develop <- fix/cart] '' @ [CHR 0x22] @ ''Fix Bob's cart'' @ [CHR 0x22]
                   @ '': contained=True -> comment_failed''],
       stderr = [''PR #13: contains all commits, but commenting failed: 403 Forbidden''],
       processed_count = 1, commented_count = 0\<rparr>)"
proof -
  have cmp: "compare demo_github ''acme/widgets'' (args_branch demo_args) (head_sha demo_pr13)
               [''get_repo'', ''get_pulls''] =
               (Inr ''behind'', [''get_repo'', ''get_pulls'', ''compare''])"
    by (simp add: demo_github_def demo_pr13_def)
  have st: "''behind'' = ''identical'' \<or> ''behind'' = ''behind''"
    by simp
  have post: "create_issue_comment demo_github demo_pr13 (args_status demo_args)
       [''get_repo'', ''get_pulls'', ''compare''] =
                (Inl ''403 Forbidden'', [''get_repo'', ''get_pulls'', ''compare'', ''create_issue_comment''])"
    by (simp add: demo_github_def demo_pr13_def)
  note run = comment_failure_is_recorded
    [OF cmp st post, of StopIteration "loop_start demo_args [''get_repo'']"]
  note run [THEN conjunct1]
  also have "pr_loop demo_github ''acme/widgets'' demo_args
       (StopIteration [''get_repo'', ''get_pulls'', ''compare'', ''create_issue_comment''])
       ((loop_start demo_args [''get_repo''])
          \<lparr>world := [''get_repo'', ''get_pulls'', ''compare'', ''create_issue_comment''],
           stdout := stdout (loop_start demo_args [''get_repo'']) @
             [''PR #'' @ str_int (number demo_pr13) @ '' ['' @ base_ref demo_pr13 @ '' <- ''
                @ head_ref demo_pr13 @ ''] '' @ py_repr (title demo_pr13)
                @ '': contained=True -> comment_failed''],
           stderr := stderr (loop_start demo_args [''get_repo'']) @
             [''PR #'' @ str_int (number demo_pr13)
                @ '': contains all commits, but commenting failed: '' @ ''403 Forbidden''],
           processed_count := processed_count (loop_start demo_args [''get_repo'']) + 1\<rparr>) =
     (None,
      \<lparr>world = [''get_repo'', ''get_pulls'', ''compare'', ''create_issue_comment''],
       stdout = [''Repository: acme/widgets'', ''Target branch: release/qa'', ''PR state: open'',
                 ''PR #13 [develop <- fix/cart] '' @ [CHR 0x22] @ ''Fix Bob's cart'' @ [CHR 0x22]
                   @ '': contained=True -> comment_failed''],
       stderr = [''PR #13: contains all commits, but commenting failed: 403 Forbidden''],
       processed_count = 1, commented_count = 0\<rparr>)"
    by (simp add: loop_start_def demo_args_def demo_pr13_def str_int_def str_nat.simps
        digit_char_def py_repr_def repr_char_def squote_def dquote_def backslash_def
        is_printable_def Let_def)
  finally show ?thesis
    using post by (intro conjI)
qed

text \<open>
  C10. An empty \<open>--token\<close> value does not take precedence: the client is built as if
  \<open>--token\<close> had not been given, from the environment variables probed in order, and
  when none of them holds a non-empty value the run ends with exit status 2 in the same
  way.
\<close>

theorem empty_token_argument_is_ignored:
  "get_github_client (Some []) environ = get_github_client None environ
   \<and> get_github_client (Some []) environ =
       (case read_token_from_environment environ of
          None \<Rightarrow> Inl (no_token_message, 2)
        | Some t \<Rightarrow> Inr t)
   \<and> main gh (args\<lparr>args_token := Some []\<rparr>) environ w0 =
       main gh (args\<lparr>args_token := None\<rparr>) environ w0
   \<and> (read_token_from_environment environ = None \<longrightarrow>
        main gh (args\<lparr>args_token := Some []\<rparr>) environ w0 =
          (2, \<lparr>world = w0, stdout = [], stderr = [no_token_message]\<rparr>))"
proof -
  have same: "get_github_client (Some []) environ = get_github_client None environ"
    by (simp add: get_github_client_def py_or_def)
  have env: "get_github_client (Some []) environ =
       (case read_token_from_environment environ of
          None \<Rightarrow> Inl (no_token_message, 2)
        | Some t \<Rightarrow> Inr t)"
    by (rule get_github_client_from_environment) simp
  have run: "main gh (args\<lparr>args_token := Some []\<rparr>) environ w0 =
               main gh (args\<lparr>args_token := None\<rparr>) environ w0"
    by (simp add: main_def same Let_def
        pr_loop_args_cong [of "args\<lparr>args_token := Some []\<rparr>" "args\<lparr>args_token := None\<rparr>"]
        split: sum.splits prod.splits option.splits)
  have exit2: "read_token_from_environment environ = None \<longrightarrow>
        main gh (args\<lparr>args_token := Some []\<rparr>) environ w0 =
          (2, \<lparr>world = w0, stdout = [], stderr = [no_token_message]\<rparr>)"
    using env main_no_token [of "args\<lparr>args_token := Some []\<rparr>" environ no_token_message 2 gh w0]
    by simp
  show ?thesis
    using same env run exit2 by blast
qed

theorem empty_token_argument_is_ignored_witness:
  "read_token_from_environment demo_bare_environ = None
   \<and> main demo_github (demo_args\<lparr>args_token := Some []\<rparr>) demo_bare_environ [] =
       (2, \<lparr>world = [], stdout = [], stderr = [no_token_message]\<rparr>)
   \<and> get_github_client (Some []) demo_environ = Inr ''t-second''"
proof -
  have none: "read_token_from_environment demo_bare_environ = None"
    by (simp add: read_token_from_environment_def candidate_env_vars_def demo_bare_environ_def)
  have some: "read_token_from_environment demo_environ = Some ''t-second''"
    by (simp add: read_token_from_environment_def candidate_env_vars_def demo_environ_def)
  have exit2: "main demo_github (demo_args\<lparr>args_token := Some []\<rparr>) demo_bare_environ [] =
       (2, \<lparr>world = [], stdout = [], stderr = [no_token_message]\<rparr>)"
    using none empty_token_argument_is_ignored [of demo_bare_environ demo_github demo_args "[]"]
    by blast
  have "get_github_client (Some []) demo_environ =
          (case read_token_from_environment demo_environ of
             None \<Rightarrow> Inl (no_token_message, 2)
           | Some t \<Rightarrow> Inr t)"
    using empty_token_argument_is_ignored [of demo_environ demo_github demo_args "[]"]
    by blast
  then have "get_github_client (Some []) demo_environ = Inr ''t-second''"
    by (simp add: some)
  then show ?thesis
    using none exit2 by blast
qed

end
